theory Spec2Isabelle
  imports Main
begin

section \<open>Data model of cv2tikz.py\<close>

text \<open>
  The resolution engine of \<^verbatim>\<open>book/src/cv2tikz.py\<close> works on the JSON document of a
  circuit: a list of node dictionaries (\<^verbatim>\<open>allNodes\<close>) and, per component kind, a list of
  element dictionaries. Every exception of the Python code is a value of \<open>error\<close>; a
  function that can raise returns \<open>error + 'a\<close>, with \<open>Inl\<close> for the exception.
  Node indices are list positions and are modelled as natural numbers; an index beyond
  the end of a list raises \<open>IndexError\<close> as in Python (a negative index, which
  Python counts from the end of the list, is not modelled). \<open>OutOfFuel\<close> is not an exception
  of the program: the two recursive functions take a bound on their recursion depth, and
  \<open>OutOfFuel\<close> is the result when the bound is reached.
\<close>

datatype error = IndexError | KeyError | TypeError | Exception string | OutOfFuel

definition ebind :: "error + 'a \<Rightarrow> ('a \<Rightarrow> error + 'b) \<Rightarrow> error + 'b" where
  "ebind m f = (case m of Inl e \<Rightarrow> Inl e | Inr x \<Rightarrow> f x)"

text \<open>A \<^verbatim>\<open>for\<close> loop over a list whose body updates a state and may raise.\<close>

primrec for_each :: "('a \<Rightarrow> 's \<Rightarrow> error + 's) \<Rightarrow> 'a list \<Rightarrow> 's \<Rightarrow> error + 's" where
  "for_each f [] s = Inr s"
| "for_each f (x # xs) s = (case f x s of Inl e \<Rightarrow> Inl e | Inr s' \<Rightarrow> for_each f xs s')"

text \<open>
  A node dictionary: \<^verbatim>\<open>node['type']\<close>, \<^verbatim>\<open>node.get('state')\<close> (\<open>None\<close> when the key is
  absent or holds \<^verbatim>\<open>None\<close>) and \<^verbatim>\<open>node['connections']\<close>.
\<close>

record node =
  type :: int
  state :: "int option"
  connections :: "nat list"

definition INPUT_NODE :: int where "INPUT_NODE = 0"

definition OUTPUT_NODE :: int where "OUTPUT_NODE = 1"

text \<open>
  A value of the dictionary \<^verbatim>\<open>element['customData']['nodes']\<close>: one node index, or a
  list of node indices. The dictionary keeps its insertion order (\<^verbatim>\<open>element_nodes\<close>
  iterates over its values), so it is an association list.
\<close>

datatype ports = Index nat | Indices "nat list"

type_synonym nodes_dict = "(string \<times> ports) list"

record element =
  objectType :: "string option"
  customData_nodes :: nodes_dict
  customData_values_state :: int
  labelDirection :: string
  elem_id :: string
  inputNodes :: "nat list"
  outputNodes :: "nat list"

subsection \<open>Python's indexing and dictionary access\<close>

definition node_at :: "node list \<Rightarrow> nat \<Rightarrow> error + node" where
  "node_at all_nodes k = (if k < length all_nodes then Inr (all_nodes ! k) else Inl IndexError)"

definition get_state :: "node list \<Rightarrow> nat \<Rightarrow> error + int option" where
  "get_state all_nodes k = ebind (node_at all_nodes k) (\<lambda>n. Inr (state n))"

definition set_state :: "node list \<Rightarrow> nat \<Rightarrow> int option \<Rightarrow> node list" where
  "set_state all_nodes k v = all_nodes[k := (all_nodes ! k)\<lparr>state := v\<rparr>]"

definition assign_state :: "node list \<Rightarrow> nat \<Rightarrow> int option \<Rightarrow> error + node list" where
  "assign_state all_nodes k v =
     (if k < length all_nodes then Inr (set_state all_nodes k v) else Inl IndexError)"

definition list_at :: "nat list \<Rightarrow> nat \<Rightarrow> error + nat" where
  "list_at xs k = (if k < length xs then Inr (xs ! k) else Inl IndexError)"

definition lookup :: "nodes_dict \<Rightarrow> string \<Rightarrow> error + ports" where
  "lookup nodes k = (case map_of nodes k of None \<Rightarrow> Inl KeyError | Some v \<Rightarrow> Inr v)"

text \<open>\<^verbatim>\<open>nodes[k]\<close> used as an index into \<^verbatim>\<open>all_nodes\<close>: a list there is a \<open>TypeError\<close>.\<close>

definition port :: "nodes_dict \<Rightarrow> string \<Rightarrow> error + nat" where
  "port nodes k =
     ebind (lookup nodes k) (\<lambda>v. case v of Index i \<Rightarrow> Inr i | Indices is \<Rightarrow> Inl TypeError)"

text \<open>\<^verbatim>\<open>nodes[k][j]\<close>: subscripting an integer is a \<open>TypeError\<close>.\<close>

definition port_of :: "nodes_dict \<Rightarrow> string \<Rightarrow> nat \<Rightarrow> error + nat" where
  "port_of nodes k j =
     ebind (lookup nodes k) (\<lambda>v. case v of Index i \<Rightarrow> Inl TypeError | Indices is \<Rightarrow> list_at is j)"

text \<open>\<^verbatim>\<open>len(nodes[k])\<close>.\<close>

definition port_len :: "nodes_dict \<Rightarrow> string \<Rightarrow> error + nat" where
  "port_len nodes k =
     ebind (lookup nodes k) (\<lambda>v. case v of Index i \<Rightarrow> Inl TypeError | Indices is \<Rightarrow> Inr (length is))"

text \<open>\<^verbatim>\<open>all_nodes[nodes[k][j]].get('state')\<close> and \<^verbatim>\<open>all_nodes[nodes[k]].get('state')\<close>.\<close>

definition state_of :: "nodes_dict \<Rightarrow> node list \<Rightarrow> string \<Rightarrow> nat \<Rightarrow> error + int option" where
  "state_of nodes all_nodes k j = ebind (port_of nodes k j) (get_state all_nodes)"

definition state_at :: "nodes_dict \<Rightarrow> node list \<Rightarrow> string \<Rightarrow> error + int option" where
  "state_at nodes all_nodes k = ebind (port nodes k) (get_state all_nodes)"

text \<open>
  \<^verbatim>\<open>output = all_nodes[nodes[k]]\<close>: the reference is taken (and the index checked) before
  the condition that decides whether \<^verbatim>\<open>output['state']\<close> is assigned.
\<close>

definition output_at :: "nodes_dict \<Rightarrow> node list \<Rightarrow> string \<Rightarrow> error + nat" where
  "output_at nodes all_nodes k =
     ebind (port nodes k) (\<lambda>out. ebind (node_at all_nodes out) (\<lambda>_. Inr out))"

definition output_of :: "nodes_dict \<Rightarrow> node list \<Rightarrow> string \<Rightarrow> nat \<Rightarrow> error + nat" where
  "output_of nodes all_nodes k j =
     ebind (port_of nodes k j) (\<lambda>out. ebind (node_at all_nodes out) (\<lambda>_. Inr out))"

text \<open>\<^verbatim>\<open>sub in name\<close> on strings.\<close>

primrec starts_with :: "string \<Rightarrow> string \<Rightarrow> bool" where
  "starts_with [] s = True"
| "starts_with (c # cs) s = (case s of [] \<Rightarrow> False | d # ds \<Rightarrow> c = d \<and> starts_with cs ds)"

primrec str_in :: "string \<Rightarrow> string \<Rightarrow> bool" where
  "str_in sub [] = (sub = [])"
| "str_in sub (c # cs) = (starts_with sub (c # cs) \<or> str_in sub cs)"

section \<open>Gate evaluator\<close>

definition update_and_gate :: "nodes_dict \<Rightarrow> node list \<Rightarrow> error + node list" where
  "update_and_gate nodes all_nodes =
     ebind (state_of nodes all_nodes ''inp'' 0) (\<lambda>i0.
     ebind (state_of nodes all_nodes ''inp'' 1) (\<lambda>i1.
     ebind (port_len nodes ''inp'') (\<lambda>n.
     if n \<noteq> 2 then Inl (Exception ''Unsupported and gate (>2 inputs)'')
     else ebind (output_at nodes all_nodes ''output1'') (\<lambda>output.
       if i0 \<noteq> None \<or> i1 \<noteq> None
       then Inr (set_state all_nodes output (Some (if i0 = Some 1 \<and> i1 = Some 1 then 1 else 0)))
       else Inr all_nodes))))"

definition update_demultiplexer :: "nodes_dict \<Rightarrow> node list \<Rightarrow> error + node list" where
  "update_demultiplexer nodes all_nodes =
     ebind (state_at nodes all_nodes ''input'') (\<lambda>i.
     ebind (state_at nodes all_nodes ''controlSignalInput'') (\<lambda>c.
     ebind (output_of nodes all_nodes ''output1'' 0) (\<lambda>output0.
     ebind (output_of nodes all_nodes ''output1'' 1) (\<lambda>output1.
       if i \<noteq> None \<and> c \<noteq> None then
         if c = Some 0
         then Inr (set_state (set_state all_nodes output0 i) output1 (Some 0))
         else Inr (set_state (set_state all_nodes output0 (Some 0)) output1 i)
       else Inr all_nodes))))"

definition update_multiplexer :: "nodes_dict \<Rightarrow> node list \<Rightarrow> error + node list" where
  "update_multiplexer nodes all_nodes =
     ebind (state_of nodes all_nodes ''inp'' 0) (\<lambda>i0.
     ebind (state_of nodes all_nodes ''inp'' 1) (\<lambda>i1.
     ebind (port_len nodes ''inp'') (\<lambda>n.
     if n \<noteq> 2 then Inl (Exception ''Unsupported multiplexer (>2 inputs)'')
     else ebind (state_at nodes all_nodes ''controlSignalInput'') (\<lambda>c.
       ebind (output_at nodes all_nodes ''output1'') (\<lambda>output.
       if c \<noteq> None then
         if c = Some 0 \<and> i0 \<noteq> None then Inr (set_state all_nodes output i0)
         else if i1 \<noteq> None then Inr (set_state all_nodes output i1)
         else Inr all_nodes
       else Inr all_nodes)))))"

definition update_nand_gate :: "nodes_dict \<Rightarrow> node list \<Rightarrow> error + node list" where
  "update_nand_gate nodes all_nodes =
     ebind (state_of nodes all_nodes ''inp'' 0) (\<lambda>i0.
     ebind (state_of nodes all_nodes ''inp'' 1) (\<lambda>i1.
     ebind (port_len nodes ''inp'') (\<lambda>n.
     if n \<noteq> 2 then Inl (Exception ''Unsupported nand gate (>2 inputs)'')
     else ebind (output_at nodes all_nodes ''output1'') (\<lambda>output.
       if i0 \<noteq> None \<or> i1 \<noteq> None
       then Inr (set_state all_nodes output (Some (if i0 = Some 1 \<and> i1 = Some 1 then 0 else 1)))
       else Inr all_nodes))))"

definition update_nor_gate :: "nodes_dict \<Rightarrow> node list \<Rightarrow> error + node list" where
  "update_nor_gate nodes all_nodes =
     ebind (state_of nodes all_nodes ''inp'' 0) (\<lambda>i0.
     ebind (state_of nodes all_nodes ''inp'' 1) (\<lambda>i1.
     ebind (port_len nodes ''inp'') (\<lambda>n.
     if n \<noteq> 2 then Inl (Exception ''Unsupported nor gate (>2 inputs)'')
     else ebind (output_at nodes all_nodes ''output1'') (\<lambda>output.
       if i0 \<noteq> None \<or> i1 \<noteq> None
       then Inr (set_state all_nodes output (Some (if i0 = Some 1 \<or> i1 = Some 1 then 0 else 1)))
       else Inr all_nodes))))"

definition update_not_gate :: "nodes_dict \<Rightarrow> node list \<Rightarrow> error + node list" where
  "update_not_gate nodes all_nodes =
     ebind (state_at nodes all_nodes ''inp1'') (\<lambda>i.
     ebind (output_at nodes all_nodes ''output1'') (\<lambda>output.
       if i \<noteq> None
       then Inr (set_state all_nodes output (Some (if i = Some 0 then 1 else 0)))
       else Inr all_nodes))"

definition update_or_gate :: "nodes_dict \<Rightarrow> node list \<Rightarrow> error + node list" where
  "update_or_gate nodes all_nodes =
     ebind (state_of nodes all_nodes ''inp'' 0) (\<lambda>i0.
     ebind (state_of nodes all_nodes ''inp'' 1) (\<lambda>i1.
     ebind (port_len nodes ''inp'') (\<lambda>n.
     if n = 3 then
       ebind (state_of nodes all_nodes ''inp'' 2) (\<lambda>i2.
       ebind (output_at nodes all_nodes ''output1'') (\<lambda>output.
         if i0 \<noteq> None \<or> i1 \<noteq> None \<or> i2 \<noteq> None
         then Inr (set_state all_nodes output
                (Some (if i0 = Some 1 \<or> i1 = Some 1 \<or> i2 = Some 1 then 1 else 0)))
         else Inr all_nodes))
     else if n \<noteq> 2 then Inl (Exception ''Unsupported or gate (>3 inputs)'')
     else ebind (output_at nodes all_nodes ''output1'') (\<lambda>output.
       if i0 \<noteq> None \<or> i1 \<noteq> None
       then Inr (set_state all_nodes output (Some (if i0 = Some 1 \<or> i1 = Some 1 then 1 else 0)))
       else Inr all_nodes))))"

definition update_sr_flip_flop :: "nodes_dict \<Rightarrow> node list \<Rightarrow> error + node list" where
  "update_sr_flip_flop nodes all_nodes =
     ebind (state_at nodes all_nodes ''S'') (\<lambda>i.
     ebind (output_at nodes all_nodes ''qOutput'') (\<lambda>output.
       Inr (set_state all_nodes output (Some (if i = Some 1 then 1 else 0)))))"

definition update_tristate :: "nodes_dict \<Rightarrow> node list \<Rightarrow> error + node list" where
  "update_tristate nodes all_nodes =
     ebind (state_at nodes all_nodes ''inp1'') (\<lambda>i.
     ebind (state_at nodes all_nodes ''state'') (\<lambda>c.
     ebind (output_at nodes all_nodes ''output1'') (\<lambda>output.
       if i \<noteq> None \<and> c \<noteq> None
       then Inr (set_state all_nodes output (if c = Some 1 then i else None))
       else Inr all_nodes)))"

definition update_xor_gate :: "nodes_dict \<Rightarrow> node list \<Rightarrow> error + node list" where
  "update_xor_gate nodes all_nodes =
     ebind (state_of nodes all_nodes ''inp'' 0) (\<lambda>i0.
     ebind (state_of nodes all_nodes ''inp'' 1) (\<lambda>i1.
     ebind (port_len nodes ''inp'') (\<lambda>n.
     if n \<noteq> 2 then Inl (Exception ''Unsupported xor gate (>2 inputs)'')
     else ebind (output_at nodes all_nodes ''output1'') (\<lambda>output.
       if i0 \<noteq> None \<or> i1 \<noteq> None
       then Inr (set_state all_nodes output (Some (if (i0 = Some 1) \<noteq> (i1 = Some 1) then 1 else 0)))
       else Inr all_nodes))))"

text \<open>
  The global dictionary \<^verbatim>\<open>scope_name_by_id\<close> (filled by \<^verbatim>\<open>main\<close> from the scopes of the
  document) is passed to the functions that read it.
\<close>

type_synonym scope_names = "string \<rightharpoonup> string"

definition scope_name :: "scope_names \<Rightarrow> element \<Rightarrow> error + string" where
  "scope_name scope_name_by_id e =
     (case scope_name_by_id (elem_id e) of None \<Rightarrow> Inl KeyError | Some name \<Rightarrow> Inr name)"

definition update_subcircuit :: "scope_names \<Rightarrow> element \<Rightarrow> node list \<Rightarrow> error + node list" where
  "update_subcircuit scope_name_by_id element all_nodes =
     ebind (ebind (list_at (inputNodes element) 0) (get_state all_nodes)) (\<lambda>i.
     ebind (ebind (list_at (inputNodes element) 1) (get_state all_nodes)) (\<lambda>c.
     ebind (list_at (outputNodes element) 0) (\<lambda>output.
     ebind (node_at all_nodes output) (\<lambda>_.
     ebind (scope_name scope_name_by_id element) (\<lambda>name.
       if str_in ''NormallyClosed'' name then
         if i \<noteq> None \<and> c \<noteq> Some 1 then Inr (set_state all_nodes output i) else Inr all_nodes
       else if i \<noteq> None \<and> c = Some 1 then Inr (set_state all_nodes output i)
       else Inr all_nodes)))))"

definition maybe_update_subcircuit_input ::
  "scope_names \<Rightarrow> element \<Rightarrow> node list \<Rightarrow> error + node list" where
  "maybe_update_subcircuit_input scope_name_by_id element all_nodes =
     ebind (list_at (inputNodes element) 0) (\<lambda>input.
     ebind (node_at all_nodes input) (\<lambda>_.
     ebind (ebind (list_at (inputNodes element) 1) (get_state all_nodes)) (\<lambda>c.
     ebind (ebind (list_at (outputNodes element) 0) (get_state all_nodes)) (\<lambda>out.
     ebind (scope_name scope_name_by_id element) (\<lambda>name.
       if str_in ''NormallyClosed'' name then
         if out \<noteq> None \<and> c \<noteq> Some 1 then Inr (set_state all_nodes input out) else Inr all_nodes
       else if out \<noteq> None \<and> c = Some 1 then Inr (set_state all_nodes input out)
       else Inr all_nodes)))))"

definition update_element :: "scope_names \<Rightarrow> element \<Rightarrow> node list \<Rightarrow> error + node list" where
  "update_element scope_name_by_id element all_nodes =
     (case objectType element of
        None \<Rightarrow> update_subcircuit scope_name_by_id element all_nodes
      | Some ty \<Rightarrow>
          (let nodes = customData_nodes element in
           if ty = ''AndGate'' then update_and_gate nodes all_nodes
           else if ty = ''Demultiplexer'' then update_demultiplexer nodes all_nodes
           else if ty = ''Multiplexer'' then update_multiplexer nodes all_nodes
           else if ty = ''NandGate'' then update_nand_gate nodes all_nodes
           else if ty = ''NorGate'' then update_nor_gate nodes all_nodes
           else if ty = ''NotGate'' then update_not_gate nodes all_nodes
           else if ty = ''OrGate'' then update_or_gate nodes all_nodes
           else if ty = ''SRflipFlop'' then update_sr_flip_flop nodes all_nodes
           else if ty = ''TriState'' then update_tristate nodes all_nodes
           else if ty = ''XorGate'' then update_xor_gate nodes all_nodes
           else Inr all_nodes))"

section \<open>Element registry and initialization\<close>

definition element_nodes :: "element \<Rightarrow> nat list" where
  "element_nodes e =
     concat (map (\<lambda>(key, value). case value of Index i \<Rightarrow> [i] | Indices is \<Rightarrow> is)
       (customData_nodes e))"

definition set_element ::
  "element option list \<Rightarrow> nat \<Rightarrow> element \<Rightarrow> error + element option list" where
  "set_element element_by_node_index k e =
     (if k < length element_by_node_index then Inr (element_by_node_index[k := Some e])
      else Inl IndexError)"

definition element_at :: "element option list \<Rightarrow> nat \<Rightarrow> error + element option" where
  "element_at element_by_node_index k =
     (if k < length element_by_node_index then Inr (element_by_node_index ! k)
      else Inl IndexError)"

definition initialize_node_states ::
  "scope_names \<Rightarrow> element \<Rightarrow> node list \<times> element option list \<Rightarrow>
   error + (node list \<times> element option list)" where
  "initialize_node_states scope_name_by_id e st =
     (case st of (all_nodes, element_by_node_index) \<Rightarrow>
      (case objectType e of
         None \<Rightarrow>
           ebind (scope_name scope_name_by_id e) (\<lambda>name.
           ebind (for_each (\<lambda>input ebni. set_element ebni input e) (inputNodes e)
                    element_by_node_index) (\<lambda>ebni.
           for_each (\<lambda>output (all_nodes, ebni).
               ebind (set_element ebni output e) (\<lambda>ebni'.
               if \<not> str_in ''Normally'' name
               then ebind (assign_state all_nodes output (Some 0)) (\<lambda>all_nodes'.
                      Inr (all_nodes', ebni'))
               else Inr (all_nodes, ebni')))
             (outputNodes e) (all_nodes, ebni)))
       | Some ty \<Rightarrow>
           ebind (for_each (\<lambda>node ebni. set_element ebni node e) (element_nodes e)
                    element_by_node_index) (\<lambda>ebni.
           (let nodes = customData_nodes e in
            if ty = ''Clock'' \<or> ty = ''Ground'' then
              ebind (port nodes ''output1'') (\<lambda>out.
              ebind (assign_state all_nodes out (Some 0)) (\<lambda>all_nodes'. Inr (all_nodes', ebni)))
            else if ty = ''Button'' \<or> ty = ''Input'' then
              ebind (port nodes ''output1'') (\<lambda>out.
              ebind (assign_state all_nodes out (Some (customData_values_state e)))
                (\<lambda>all_nodes'. Inr (all_nodes', ebni)))
            else if ty = ''Power'' then
              ebind (port nodes ''output1'') (\<lambda>out.
              ebind (assign_state all_nodes out (Some 1)) (\<lambda>all_nodes'. Inr (all_nodes', ebni)))
            else if ty = ''DflipFlop'' then
              ebind (port nodes ''qOutput'') (\<lambda>out.
              ebind (assign_state all_nodes out
                       (Some (if labelDirection e = ''UP'' then 1 else 0)))
                (\<lambda>all_nodes'. Inr (all_nodes', ebni)))
            else if ty = ''NorGate'' \<or> ty = ''NotGate'' then
              if labelDirection e = ''UP'' then
                ebind (port nodes ''output1'') (\<lambda>out.
                ebind (assign_state all_nodes out (Some 1)) (\<lambda>all_nodes'. Inr (all_nodes', ebni)))
              else if labelDirection e = ''DOWN'' then
                ebind (port nodes ''output1'') (\<lambda>out.
                ebind (assign_state all_nodes out (Some 0)) (\<lambda>all_nodes'. Inr (all_nodes', ebni)))
              else Inr (all_nodes, ebni)
            else Inr (all_nodes, ebni)))))"

section \<open>Dependency graph builder\<close>

text \<open>
  \<^verbatim>\<open>successors\<close> is a Python set. Its iteration order is not specified by the language;
  the model keeps the elements in the order of their first insertion.
\<close>

definition add :: "nat list \<Rightarrow> nat \<Rightarrow> nat list" where
  "add successors x = (if x \<in> set successors then successors else successors @ [x])"

definition visited_at :: "bool list \<Rightarrow> nat \<Rightarrow> error + bool" where
  "visited_at visited k = (if k < length visited then Inr (visited ! k) else Inl IndexError)"

text \<open>
  \<^verbatim>\<open>find_successors\<close> is recursive, with no structural argument: \<open>fuel\<close> bounds the depth
  of the recursion.
\<close>

primrec find_successors ::
  "nat \<Rightarrow> nat \<Rightarrow> node list \<Rightarrow> nat list \<times> bool list \<Rightarrow> error + (nat list \<times> bool list)" where
  "find_successors 0 index nodes sv = Inl OutOfFuel"
| "find_successors (Suc fuel) index nodes sv =
     (case sv of (successors, visited) \<Rightarrow>
      if \<not> index < length visited then Inl IndexError
      else ebind (node_at nodes index) (\<lambda>node.
        for_each (\<lambda>successor_index (successors, visited).
            ebind (visited_at visited successor_index) (\<lambda>v.
            if \<not> v then
              ebind (node_at nodes successor_index) (\<lambda>successor.
              find_successors fuel successor_index nodes
                (if type successor \<noteq> OUTPUT_NODE then add successors successor_index
                 else successors, visited))
            else Inr (successors, visited)))
          (connections node) (successors, visited[index := True])))"

section \<open>Topological orderer\<close>

definition status_at :: "nat list \<Rightarrow> nat \<Rightarrow> error + nat" where
  "status_at node_status k = (if k < length node_status then Inr (node_status ! k) else Inl IndexError)"

definition successors_at :: "nat list list \<Rightarrow> nat \<Rightarrow> error + nat list" where
  "successors_at successors_by_node_index k =
     (if k < length successors_by_node_index then Inr (successors_by_node_index ! k)
      else Inl IndexError)"

text \<open>The state of the sort is the pair \<^verbatim>\<open>(sorted_nodes, node_status)\<close>.\<close>

primrec topological_sort ::
  "nat \<Rightarrow> nat \<Rightarrow> nat list list \<Rightarrow> nat list \<times> nat list \<Rightarrow> error + (nat list \<times> nat list)" where
  "topological_sort 0 index successors_by_node_index st = Inl OutOfFuel"
| "topological_sort (Suc fuel) index successors_by_node_index st =
     (case st of (sorted_nodes, node_status) \<Rightarrow>
      ebind (status_at node_status index) (\<lambda>s.
      if s = 2 then Inr (sorted_nodes, node_status)
      else if s = 1 then Inl (Exception ''Cyclic graph!'')
      else ebind (successors_at successors_by_node_index index) (\<lambda>successors.
        ebind (for_each (\<lambda>successor_index. topological_sort fuel successor_index
                          successors_by_node_index)
                 successors (sorted_nodes, node_status[index := 1]))
          (\<lambda>(sorted_nodes', node_status').
             Inr (sorted_nodes' @ [index], node_status'[index := 2])))))"

section \<open>Propagator\<close>

definition node_successors ::
  "scope_names \<Rightarrow> nat \<Rightarrow> node list \<Rightarrow> element option list \<Rightarrow> nat \<Rightarrow> error + nat list" where
  "node_successors scope_name_by_id fuel nodes element_by_node_index index =
     ebind (node_at nodes index) (\<lambda>node.
     if type node = INPUT_NODE then
       ebind (element_at element_by_node_index index) (\<lambda>element.
       case element of
         None \<Rightarrow> Inr []
       | Some e \<Rightarrow>
           (case objectType e of
              None \<Rightarrow>
                ebind (scope_name scope_name_by_id e) (\<lambda>name.
                Inr (fold (\<lambda>output successors.
                       if str_in ''Normally'' name then add successors output else successors)
                     (outputNodes e) []))
            | Some ty \<Rightarrow>
                for_each (\<lambda>n successors.
                    ebind (node_at nodes n) (\<lambda>nd.
                    if type nd = OUTPUT_NODE \<and> state nd = None then Inr (add successors n)
                    else Inr successors))
                  (element_nodes e) []))
     else if type node = OUTPUT_NODE then
       ebind (find_successors fuel index nodes ([], replicate (length nodes) False))
         (\<lambda>(successors, visited). Inr successors)
     else Inr [])"

definition all_successors ::
  "scope_names \<Rightarrow> nat \<Rightarrow> node list \<Rightarrow> element option list \<Rightarrow> error + nat list list" where
  "all_successors scope_name_by_id fuel nodes element_by_node_index =
     for_each (\<lambda>index successors_by_node_index.
         ebind (node_successors scope_name_by_id fuel nodes element_by_node_index index)
           (\<lambda>successors. Inr (successors_by_node_index @ [successors])))
       [0..<length nodes] []"

definition sort_all :: "nat \<Rightarrow> nat \<Rightarrow> nat list list \<Rightarrow> error + (nat list \<times> nat list)" where
  "sort_all fuel n successors_by_node_index =
     for_each (\<lambda>index (sorted_nodes, node_status).
         ebind (status_at node_status index) (\<lambda>s.
         if s = 0
         then topological_sort fuel index successors_by_node_index (sorted_nodes, node_status)
         else Inr (sorted_nodes, node_status)))
       [0..<n] ([], replicate n 0)"

text \<open>One iteration of the first loop, over \<^verbatim>\<open>reversed(sorted_nodes)\<close>.\<close>

definition reverse_step ::
  "scope_names \<Rightarrow> nat list list \<Rightarrow> element option list \<Rightarrow> nat \<Rightarrow> node list \<Rightarrow>
   error + node list" where
  "reverse_step scope_name_by_id successors_by_node_index element_by_node_index index nodes =
     ebind (node_at nodes index) (\<lambda>node.
     if type node \<noteq> OUTPUT_NODE then Inr nodes
     else
       ebind (element_at element_by_node_index index) (\<lambda>element.
       ebind (case element of
                None \<Rightarrow> Inr nodes
              | Some e \<Rightarrow>
                  if state node = None then update_element scope_name_by_id e nodes
                  else Inr nodes) (\<lambda>nodes'.
       case state (nodes' ! index) of
         None \<Rightarrow> Inr nodes'
       | Some st \<Rightarrow>
           ebind (successors_at successors_by_node_index index) (\<lambda>successors.
           for_each (\<lambda>successor_index nodes. assign_state nodes successor_index (Some st))
             successors nodes'))))"

text \<open>The inner loop of the second pass: adopt the first defined state of a neighbour.\<close>

primrec adopt :: "node list \<Rightarrow> nat \<Rightarrow> nat list \<Rightarrow> error + node list" where
  "adopt nodes index [] = Inr nodes"
| "adopt nodes index (connection # cs) =
     ebind (get_state nodes connection) (\<lambda>st.
     if st \<noteq> None then Inr (set_state nodes index st) else adopt nodes index cs)"

text \<open>One iteration of the second loop, over \<^verbatim>\<open>sorted_nodes\<close>.\<close>

definition forward_step ::
  "scope_names \<Rightarrow> element option list \<Rightarrow> nat \<Rightarrow> node list \<Rightarrow> error + node list" where
  "forward_step scope_name_by_id element_by_node_index index nodes =
     ebind (node_at nodes index) (\<lambda>node.
     if state node \<noteq> None then Inr nodes
     else
       ebind (adopt nodes index (connections node)) (\<lambda>nodes'.
       if type node = OUTPUT_NODE then
         ebind (element_at element_by_node_index index) (\<lambda>element.
         case element of
           None \<Rightarrow> Inr nodes'
         | Some e \<Rightarrow>
             if objectType e = None then maybe_update_subcircuit_input scope_name_by_id e nodes'
             else Inr nodes')
       else Inr nodes'))"

definition compute_node_states ::
  "scope_names \<Rightarrow> nat \<Rightarrow> node list \<Rightarrow> element option list \<Rightarrow> error + node list" where
  "compute_node_states scope_name_by_id fuel nodes element_by_node_index =
     ebind (all_successors scope_name_by_id fuel nodes element_by_node_index)
       (\<lambda>successors_by_node_index.
     ebind (sort_all fuel (length nodes) successors_by_node_index)
       (\<lambda>(sorted_nodes, node_status).
     ebind (for_each (reverse_step scope_name_by_id successors_by_node_index
                        element_by_node_index) (rev sorted_nodes) nodes) (\<lambda>nodes'.
     for_each (forward_step scope_name_by_id element_by_node_index) sorted_nodes nodes')))"

text \<open>
  The part of \<^verbatim>\<open>main\<close> that resolves the circuit: every supported element is
  initialized, in the order of the document, then the node states are computed.
\<close>

definition resolve ::
  "scope_names \<Rightarrow> nat \<Rightarrow> element list \<Rightarrow> node list \<Rightarrow> error + node list" where
  "resolve scope_name_by_id fuel elements nodes =
     ebind (for_each (initialize_node_states scope_name_by_id) elements
              (nodes, replicate (length nodes) None))
       (\<lambda>(nodes', element_by_node_index).
          compute_node_states scope_name_by_id fuel nodes' element_by_node_index)"

section \<open>Specification vocabulary\<close>

subsection \<open>Truth tables\<close>

text \<open>
  The tri-state values of the specification: \<open>None\<close> is Unknown, \<open>Some 0\<close> is Low and
  \<open>Some 1\<close> is High. \<open>as_low\<close> reads an Unknown input as Low.
\<close>

definition tristate :: "int option \<Rightarrow> bool" where
  "tristate v = (v = None \<or> v = Some 0 \<or> v = Some 1)"

definition as_low :: "int option \<Rightarrow> int" where
  "as_low v = (case v of None \<Rightarrow> 0 | Some x \<Rightarrow> x)"

definition high :: "int option \<Rightarrow> bool" where
  "high v = (as_low v = 1)"

definition level :: "bool \<Rightarrow> int option" where
  "level h = Some (if h then 1 else 0)"

text \<open>
  What the specification says of a basic gate: the output node \<open>out\<close> is assigned the
  level \<open>h\<close> when some input is defined, and nothing is assigned otherwise.
\<close>

definition gate_output ::
  "node list \<Rightarrow> nat \<Rightarrow> int option list \<Rightarrow> bool \<Rightarrow> error + node list" where
  "gate_output all_nodes out inputs h =
     (if list_ex (\<lambda>v. v \<noteq> None) inputs then Inr (set_state all_nodes out (level h))
      else Inr all_nodes)"

subsection \<open>The successors relation\<close>

text \<open>
  The successors relation as a graph on the node indices, and what a true cycle is.
  \<open>in_range\<close> says that every successor is a node index.
\<close>

definition edges :: "nat list list \<Rightarrow> (nat \<times> nat) set" where
  "edges succs = {(a, b). a < length succs \<and> b \<in> set (succs ! a)}"

definition cyclic :: "nat list list \<Rightarrow> bool" where
  "cyclic succs = (\<exists>v. (v, v) \<in> (edges succs)\<^sup>+)"

definition in_range :: "nat list list \<Rightarrow> bool" where
  "in_range succs = (\<forall>a < length succs. \<forall>b \<in> set (succs ! a). b < length succs)"

text \<open>The three colours of \<^verbatim>\<open>node_status\<close>: 0 is unvisited, 1 is on the recursion path, 2 is done.\<close>

definition white :: "nat list \<Rightarrow> nat set" where
  "white status = {i. i < length status \<and> status ! i = 0}"

definition gray :: "nat list \<Rightarrow> nat set" where
  "gray status = {i. i < length status \<and> status ! i = 1}"

definition black :: "nat list \<Rightarrow> nat set" where
  "black status = {i. i < length status \<and> status ! i = 2}"

text \<open>
  The invariant of the sort: the sorted nodes are the finished ones, each once, and every
  successor of a sorted node stands before it.
\<close>

definition sort_inv :: "nat list list \<Rightarrow> nat list \<times> nat list \<Rightarrow> bool" where
  "sort_inv succs st =
     (length (snd st) = length succs \<and> (\<forall>i < length (snd st). snd st ! i \<le> 2)
      \<and> distinct (fst st) \<and> set (fst st) = black (snd st)
      \<and> (\<forall>j < length (fst st). \<forall>b \<in> set (succs ! (fst st ! j)). \<exists>i < j. fst st ! i = b))"

definition sort_post ::
  "nat list list \<Rightarrow> nat set \<Rightarrow> nat list \<times> nat list \<Rightarrow> error + (nat list \<times> nat list) \<Rightarrow> bool" where
  "sort_post succs finished st r =
     (case r of
        Inl e \<Rightarrow> e = Exception ''Cyclic graph!'' \<and> cyclic succs
      | Inr st' \<Rightarrow>
          sort_inv succs st' \<and> gray (snd st') = gray (snd st) \<and> black (snd st) \<subseteq> black (snd st')
          \<and> white (snd st') \<subseteq> white (snd st) \<and> finished \<subseteq> black (snd st'))"

subsection \<open>Wires and nets\<close>





definition unseen :: "bool list \<Rightarrow> nat set" where
  "unseen visited = {i. i < length visited \<and> \<not> visited ! i}"


section \<open>Concrete circuits\<close>

text \<open>
  The node lists, port dictionaries and elements of the circuits on which the functions
  are evaluated below. Each is described where it is used.
\<close>

definition gate_nodes :: "node list" where
  "gate_nodes =
     [\<lparr>type = 0, state = Some 1, connections = []\<rparr>,
      \<lparr>type = 0, state = None, connections = []\<rparr>,
      \<lparr>type = 0, state = None, connections = []\<rparr>,
      \<lparr>type = 1, state = None, connections = []\<rparr>]"

definition latch_nodes :: "node list" where
  "latch_nodes =
     [\<lparr>type = 0, state = Some 1, connections = []\<rparr>,
      \<lparr>type = 0, state = None, connections = []\<rparr>,
      \<lparr>type = 1, state = None, connections = []\<rparr>]"

definition short_gate :: nodes_dict where
  "short_gate = [(''inp'', Indices [0]), (''output1'', Index 1)]"

definition long_gate :: nodes_dict where
  "long_gate = [(''inp'', Indices [0, 1, 2]), (''output1'', Index 3)]"

definition mux_gate :: nodes_dict where
  "mux_gate = [(''inp'', Indices [0, 1]), (''controlSignalInput'', Index 2), (''output1'', Index 3)]"

definition mux_nodes :: "node list" where
  "mux_nodes =
     [\<lparr>type = 0, state = None, connections = []\<rparr>,
      \<lparr>type = 0, state = Some 1, connections = []\<rparr>,
      \<lparr>type = 0, state = Some 0, connections = []\<rparr>,
      \<lparr>type = 1, state = None, connections = []\<rparr>]"

definition demux_gate :: nodes_dict where
  "demux_gate =
     [(''input'', Index 0), (''controlSignalInput'', Index 1), (''output1'', Indices [2, 3])]"

definition demux_nodes :: "int option \<Rightarrow> int option \<Rightarrow> node list" where
  "demux_nodes i c =
     [\<lparr>type = 0, state = i, connections = []\<rparr>,
      \<lparr>type = 0, state = c, connections = []\<rparr>,
      \<lparr>type = 1, state = None, connections = []\<rparr>,
      \<lparr>type = 1, state = None, connections = []\<rparr>]"

definition not_loop_nodes :: "node list" where
  "not_loop_nodes =
     [\<lparr>type = 0, state = None, connections = [1]\<rparr>,
      \<lparr>type = 1, state = None, connections = [0]\<rparr>]"

definition not_loop_gate :: "string \<Rightarrow> element" where
  "not_loop_gate direction =
     \<lparr>objectType = Some ''NotGate'',
      customData_nodes = [(''output1'', Index 1), (''inp1'', Index 0)],
      customData_values_state = 0, labelDirection = direction, elem_id = ''1'',
      inputNodes = [], outputNodes = []\<rparr>"

definition power_element :: element where
  "power_element =
     \<lparr>objectType = Some ''Power'', customData_nodes = [(''output1'', Index 0)],
      customData_values_state = 0, labelDirection = ''RIGHT'', elem_id = ''1'',
      inputNodes = [], outputNodes = []\<rparr>"

definition and3_element :: element where
  "and3_element =
     \<lparr>objectType = Some ''AndGate'',
      customData_nodes = [(''inp'', Indices [1, 2, 3]), (''output1'', Index 4)],
      customData_values_state = 0, labelDirection = ''RIGHT'', elem_id = ''2'',
      inputNodes = [], outputNodes = []\<rparr>"

definition and3_nodes :: "int option \<Rightarrow> node list" where
  "and3_nodes seed =
     [\<lparr>type = 1, state = seed, connections = []\<rparr>,
      \<lparr>type = 0, state = None, connections = []\<rparr>,
      \<lparr>type = 0, state = None, connections = []\<rparr>,
      \<lparr>type = 0, state = None, connections = []\<rparr>,
      \<lparr>type = 1, state = None, connections = []\<rparr>]"

definition nor3_element :: element where
  "nor3_element =
     \<lparr>objectType = Some ''NorGate'',
      customData_nodes = [(''inp'', Indices [0, 1, 2]), (''output1'', Index 3)],
      customData_values_state = 0, labelDirection = ''UP'', elem_id = ''3'',
      inputNodes = [], outputNodes = []\<rparr>"

definition nor3_nodes :: "int option \<Rightarrow> node list" where
  "nor3_nodes seed =
     [\<lparr>type = 0, state = None, connections = []\<rparr>,
      \<lparr>type = 0, state = None, connections = []\<rparr>,
      \<lparr>type = 0, state = None, connections = []\<rparr>,
      \<lparr>type = 1, state = seed, connections = []\<rparr>]"

definition or4_element :: "string \<Rightarrow> element" where
  "or4_element ty =
     \<lparr>objectType = Some ty,
      customData_nodes = [(''inp'', Indices [1, 2, 3, 0]), (''output1'', Index 4)],
      customData_values_state = 0, labelDirection = ''RIGHT'', elem_id = ''2'',
      inputNodes = [], outputNodes = []\<rparr>"









section \<open>Properties of the gate evaluator\<close>

lemmas access_defs = state_of_def state_at_def port_of_def port_def port_len_def lookup_def
  list_at_def get_state_def node_at_def output_at_def output_of_def ebind_def

lemmas spec_defs = gate_output_def level_def high_def as_low_def

lemma update_and_gate_table:
  assumes "map_of nodes ''inp'' = Some (Indices [a, b])"
    and "map_of nodes ''output1'' = Some (Index out)"
    and "a < length all_nodes" "b < length all_nodes" "out < length all_nodes"
  shows "update_and_gate nodes all_nodes =
     gate_output all_nodes out [state (all_nodes ! a), state (all_nodes ! b)]
       (high (state (all_nodes ! a)) \<and> high (state (all_nodes ! b)))"
  using assms by (auto simp: update_and_gate_def access_defs spec_defs split: option.splits)

lemma update_nand_gate_table:
  assumes "map_of nodes ''inp'' = Some (Indices [a, b])"
    and "map_of nodes ''output1'' = Some (Index out)"
    and "a < length all_nodes" "b < length all_nodes" "out < length all_nodes"
  shows "update_nand_gate nodes all_nodes =
     gate_output all_nodes out [state (all_nodes ! a), state (all_nodes ! b)]
       (\<not> (high (state (all_nodes ! a)) \<and> high (state (all_nodes ! b))))"
  using assms by (auto simp: update_nand_gate_def access_defs spec_defs split: option.splits)

lemma update_nor_gate_table:
  assumes "map_of nodes ''inp'' = Some (Indices [a, b])"
    and "map_of nodes ''output1'' = Some (Index out)"
    and "a < length all_nodes" "b < length all_nodes" "out < length all_nodes"
  shows "update_nor_gate nodes all_nodes =
     gate_output all_nodes out [state (all_nodes ! a), state (all_nodes ! b)]
       (\<not> (high (state (all_nodes ! a)) \<or> high (state (all_nodes ! b))))"
  using assms by (auto simp: update_nor_gate_def access_defs spec_defs split: option.splits)

lemma update_xor_gate_table:
  assumes "map_of nodes ''inp'' = Some (Indices [a, b])"
    and "map_of nodes ''output1'' = Some (Index out)"
    and "a < length all_nodes" "b < length all_nodes" "out < length all_nodes"
  shows "update_xor_gate nodes all_nodes =
     gate_output all_nodes out [state (all_nodes ! a), state (all_nodes ! b)]
       (high (state (all_nodes ! a)) \<noteq> high (state (all_nodes ! b)))"
  using assms by (auto simp: update_xor_gate_def access_defs spec_defs split: option.splits)

lemma update_or_gate_table2:
  assumes "map_of nodes ''inp'' = Some (Indices [a, b])"
    and "map_of nodes ''output1'' = Some (Index out)"
    and "a < length all_nodes" "b < length all_nodes" "out < length all_nodes"
  shows "update_or_gate nodes all_nodes =
     gate_output all_nodes out [state (all_nodes ! a), state (all_nodes ! b)]
       (high (state (all_nodes ! a)) \<or> high (state (all_nodes ! b)))"
  using assms by (auto simp: update_or_gate_def access_defs spec_defs split: option.splits)

lemma update_or_gate_table3:
  assumes "map_of nodes ''inp'' = Some (Indices [a, b, c])"
    and "map_of nodes ''output1'' = Some (Index out)"
    and "a < length all_nodes" "b < length all_nodes" "c < length all_nodes"
    and "out < length all_nodes"
  shows "update_or_gate nodes all_nodes =
     gate_output all_nodes out
       [state (all_nodes ! a), state (all_nodes ! b), state (all_nodes ! c)]
       (high (state (all_nodes ! a)) \<or> high (state (all_nodes ! b)) \<or>
        high (state (all_nodes ! c)))"
  using assms by (auto simp: update_or_gate_def access_defs spec_defs split: option.splits)

lemma update_not_gate_table:
  assumes "map_of nodes ''inp1'' = Some (Index a)"
    and "map_of nodes ''output1'' = Some (Index out)"
    and "a < length all_nodes" "out < length all_nodes"
    and "tristate (state (all_nodes ! a))"
  shows "update_not_gate nodes all_nodes =
     gate_output all_nodes out [state (all_nodes ! a)] (\<not> high (state (all_nodes ! a)))"
  using assms
  by (auto simp: update_not_gate_def access_defs spec_defs tristate_def split: option.splits)

text \<open>
  C1. A basic gate over tri-state inputs assigns its output node a defined value exactly
  when at least one of its inputs is defined, and the value is the truth table applied
  to the inputs with every Unknown input read as Low: AND is High iff both inputs are
  High, NAND is its complement, OR (two or three inputs) is High iff some input is High,
  NOR is its complement, XOR is High iff exactly one input is High, and NOT is defined
  iff its input is and is the complement. The gates with two inputs read the dictionary
  \<open>nodes2\<close>, the OR gate with three inputs \<open>nodes3\<close>, the NOT gate \<open>nodes1\<close>.
\<close>

theorem basic_gates_unknown_as_low:
  fixes all_nodes :: "node list" and a b c :: nat
  defines "i0 \<equiv> state (all_nodes ! a)"
    and "i1 \<equiv> state (all_nodes ! b)"
    and "i2 \<equiv> state (all_nodes ! c)"
  assumes "map_of nodes2 ''inp'' = Some (Indices [a, b])"
    and "map_of nodes2 ''output1'' = Some (Index out)"
    and "map_of nodes3 ''inp'' = Some (Indices [a, b, c])"
    and "map_of nodes3 ''output1'' = Some (Index out)"
    and "map_of nodes1 ''inp1'' = Some (Index a)"
    and "map_of nodes1 ''output1'' = Some (Index out)"
    and "a < length all_nodes" "b < length all_nodes" "c < length all_nodes"
    and "out < length all_nodes"
    and "tristate i0" "tristate i1" "tristate i2"
  shows "update_and_gate nodes2 all_nodes =
           gate_output all_nodes out [i0, i1] (high i0 \<and> high i1)
       \<and> update_nand_gate nodes2 all_nodes =
           gate_output all_nodes out [i0, i1] (\<not> (high i0 \<and> high i1))
       \<and> update_or_gate nodes2 all_nodes =
           gate_output all_nodes out [i0, i1] (high i0 \<or> high i1)
       \<and> update_or_gate nodes3 all_nodes =
           gate_output all_nodes out [i0, i1, i2] (high i0 \<or> high i1 \<or> high i2)
       \<and> update_nor_gate nodes2 all_nodes =
           gate_output all_nodes out [i0, i1] (\<not> (high i0 \<or> high i1))
       \<and> update_xor_gate nodes2 all_nodes =
           gate_output all_nodes out [i0, i1] (high i0 \<noteq> high i1)
       \<and> update_not_gate nodes1 all_nodes =
           gate_output all_nodes out [i0] (\<not> high i0)"
  using assms
  by (simp only: update_and_gate_table update_nand_gate_table update_nor_gate_table
      update_xor_gate_table update_or_gate_table2 update_or_gate_table3 update_not_gate_table
      simp_thms)

text \<open>
  The scenario of the specification: input A is High, input B is Unknown, and the
  two-input AND gate resolves its output (node 3) to Low.
\<close>

theorem basic_gates_unknown_as_low_witness:
  "update_and_gate [(''inp'', Indices [0, 1]), (''output1'', Index 3)] gate_nodes =
     Inr (set_state gate_nodes 3 (Some 0))
   \<and> update_nand_gate [(''inp'', Indices [0, 1]), (''output1'', Index 3)] gate_nodes =
     Inr (set_state gate_nodes 3 (Some 1))
   \<and> update_or_gate [(''inp'', Indices [0, 1]), (''output1'', Index 3)] gate_nodes =
     Inr (set_state gate_nodes 3 (Some 1))
   \<and> update_or_gate [(''inp'', Indices [0, 1, 2]), (''output1'', Index 3)] gate_nodes =
     Inr (set_state gate_nodes 3 (Some 1))
   \<and> update_nor_gate [(''inp'', Indices [0, 1]), (''output1'', Index 3)] gate_nodes =
     Inr (set_state gate_nodes 3 (Some 0))
   \<and> update_xor_gate [(''inp'', Indices [0, 1]), (''output1'', Index 3)] gate_nodes =
     Inr (set_state gate_nodes 3 (Some 1))
   \<and> update_not_gate [(''inp1'', Index 0), (''output1'', Index 3)] gate_nodes =
     Inr (set_state gate_nodes 3 (Some 0))"
proof -
  have "tristate (state (gate_nodes ! 0))" "tristate (state (gate_nodes ! 1))"
    "tristate (state (gate_nodes ! 2))"
    by (simp_all add: gate_nodes_def tristate_def)
  from basic_gates_unknown_as_low [of "[(''inp'', Indices [0, 1]), (''output1'', Index 3)]"
      0 1 3 "[(''inp'', Indices [0, 1, 2]), (''output1'', Index 3)]" 2
      "[(''inp1'', Index 0), (''output1'', Index 3)]" gate_nodes, OF _ _ _ _ _ _ _ _ _ _ this]
  show ?thesis
    by (simp add: gate_nodes_def spec_defs)
qed

text \<open>
  C4. The SR-latch sets its output node to High when the S input is High and to Low
  otherwise, also when S is Unknown. The R input is never consulted: the result is the
  same whatever state \<open>v\<close> the R node \<open>r\<close> holds. The input \<open>S\<close> and the output
  \<open>qOutput\<close> are in range.
\<close>

theorem sr_latch_reads_only_S:
  assumes "map_of nodes ''S'' = Some (Index s)"
    and "map_of nodes ''qOutput'' = Some (Index q)"
    and "map_of nodes ''R'' = Some (Index r)"
    and "s < length all_nodes" "q < length all_nodes" "r < length all_nodes"
    and "r \<noteq> s"
  shows "update_sr_flip_flop nodes (set_state all_nodes r v) =
           Inr (set_state (set_state all_nodes r v) q (level (state (all_nodes ! s) = Some 1)))"
  using assms
  by (simp add: update_sr_flip_flop_def access_defs set_state_def level_def)

text \<open>The scenario of the specification: S is High and R is High, the output is High.\<close>

theorem sr_latch_reads_only_S_witness:
  "update_sr_flip_flop [(''S'', Index 0), (''R'', Index 1), (''qOutput'', Index 2)]
     (set_state latch_nodes 1 (Some 1)) =
   Inr [\<lparr>type = 0, state = Some 1, connections = []\<rparr>,
        \<lparr>type = 0, state = Some 1, connections = []\<rparr>,
        \<lparr>type = 1, state = Some 1, connections = []\<rparr>]"
  using sr_latch_reads_only_S [of "[(''S'', Index 0), (''R'', Index 1), (''qOutput'', Index 2)]"
      0 2 1 latch_nodes "Some 1"]
  by (simp add: latch_nodes_def set_state_def level_def)

lemma short_inp_state_of:
  assumes "map_of nodes ''inp'' = Some (Indices inp)" "length inp < 2"
  shows "ebind (state_of nodes all_nodes ''inp'' 0) (\<lambda>i0.
           ebind (state_of nodes all_nodes ''inp'' 1) (f i0)) = Inl IndexError"
  using assms by (auto simp: access_defs split: sum.splits)

lemma update_and_gate_unsupported:
  assumes "update_and_gate nodes all_nodes = Inl (Exception m)"
  shows "\<exists>inp. map_of nodes ''inp'' = Some (Indices inp) \<and> 2 < length inp"
  using assms
  by (auto simp: update_and_gate_def access_defs
      split: sum.splits option.splits ports.splits if_splits)

lemma update_nand_gate_unsupported:
  assumes "update_nand_gate nodes all_nodes = Inl (Exception m)"
  shows "\<exists>inp. map_of nodes ''inp'' = Some (Indices inp) \<and> 2 < length inp"
  using assms
  by (auto simp: update_nand_gate_def access_defs
      split: sum.splits option.splits ports.splits if_splits)

lemma update_nor_gate_unsupported:
  assumes "update_nor_gate nodes all_nodes = Inl (Exception m)"
  shows "\<exists>inp. map_of nodes ''inp'' = Some (Indices inp) \<and> 2 < length inp"
  using assms
  by (auto simp: update_nor_gate_def access_defs
      split: sum.splits option.splits ports.splits if_splits)

lemma update_xor_gate_unsupported:
  assumes "update_xor_gate nodes all_nodes = Inl (Exception m)"
  shows "\<exists>inp. map_of nodes ''inp'' = Some (Indices inp) \<and> 2 < length inp"
  using assms
  by (auto simp: update_xor_gate_def access_defs
      split: sum.splits option.splits ports.splits if_splits)

text \<open>
  C10. An AND, NAND, NOR or XOR gate whose \<open>inp\<close> list has fewer than two entries fails
  with an \<open>IndexError\<close>: index 1 of the list is read before the arity check. The
  ``Unsupported ... gate'' exception of these gates is raised only for a list of more
  than two inputs.
\<close>

theorem short_gate_raises_index_error:
  "(map_of nodes ''inp'' = Some (Indices inp) \<and> length inp < 2 \<longrightarrow>
      update_and_gate nodes all_nodes = Inl IndexError
    \<and> update_nand_gate nodes all_nodes = Inl IndexError
    \<and> update_nor_gate nodes all_nodes = Inl IndexError
    \<and> update_xor_gate nodes all_nodes = Inl IndexError)
   \<and> (update_and_gate nodes all_nodes = Inl (Exception m)
      \<or> update_nand_gate nodes all_nodes = Inl (Exception m)
      \<or> update_nor_gate nodes all_nodes = Inl (Exception m)
      \<or> update_xor_gate nodes all_nodes = Inl (Exception m) \<longrightarrow>
      (\<exists>inp. map_of nodes ''inp'' = Some (Indices inp) \<and> 2 < length inp))"
proof (intro conjI impI)
  assume "map_of nodes ''inp'' = Some (Indices inp) \<and> length inp < 2"
  then have *: "map_of nodes ''inp'' = Some (Indices inp)" "length inp < 2" by simp_all
  show "update_and_gate nodes all_nodes = Inl IndexError"
    unfolding update_and_gate_def by (rule short_inp_state_of [OF *])
  show "update_nand_gate nodes all_nodes = Inl IndexError"
    unfolding update_nand_gate_def by (rule short_inp_state_of [OF *])
  show "update_nor_gate nodes all_nodes = Inl IndexError"
    unfolding update_nor_gate_def by (rule short_inp_state_of [OF *])
  show "update_xor_gate nodes all_nodes = Inl IndexError"
    unfolding update_xor_gate_def by (rule short_inp_state_of [OF *])
next
  assume "update_and_gate nodes all_nodes = Inl (Exception m)
      \<or> update_nand_gate nodes all_nodes = Inl (Exception m)
      \<or> update_nor_gate nodes all_nodes = Inl (Exception m)
      \<or> update_xor_gate nodes all_nodes = Inl (Exception m)"
  then show "\<exists>inp. map_of nodes ''inp'' = Some (Indices inp) \<and> 2 < length inp"
    using update_and_gate_unsupported update_nand_gate_unsupported
      update_nor_gate_unsupported update_xor_gate_unsupported
    by blast
qed

theorem short_gate_raises_index_error_witness:
  "update_and_gate short_gate gate_nodes = Inl IndexError
   \<and> update_nand_gate short_gate gate_nodes = Inl IndexError
   \<and> update_nor_gate short_gate gate_nodes = Inl IndexError
   \<and> update_xor_gate short_gate gate_nodes = Inl IndexError
   \<and> update_xor_gate long_gate gate_nodes = Inl (Exception ''Unsupported xor gate (>2 inputs)'')
   \<and> (\<exists>inp. map_of long_gate ''inp'' = Some (Indices inp) \<and> 2 < length inp)"
proof -
  have a: "map_of short_gate ''inp'' = Some (Indices [0]) \<and> length [0::nat] < 2"
    by (simp add: short_gate_def)
  have b: "update_xor_gate long_gate gate_nodes = Inl (Exception ''Unsupported xor gate (>2 inputs)'')"
    by (simp add: update_xor_gate_def long_gate_def gate_nodes_def access_defs)
  from short_gate_raises_index_error [of short_gate "[0]" gate_nodes
      "''Unsupported xor gate (>2 inputs)''"]
    short_gate_raises_index_error [of long_gate "[]" gate_nodes
      "''Unsupported xor gate (>2 inputs)''"] a b
  show ?thesis by blast
qed

text \<open>
  C2. The multiplexer at control Low, input 0 Unknown and input 1 High: the condition
  \<^verbatim>\<open>c == 0 and i0 != None\<close> fails, the \<^verbatim>\<open>elif i1 != None\<close> branch is taken, and the output
  (node 3) is assigned the value of input 1 although the control selects input 0.
\<close>

theorem multiplexer_control_low_selects_input1:
  "get_state mux_nodes 2 = Inr (Some 0)
   \<and> get_state mux_nodes 0 = Inr None
   \<and> update_multiplexer mux_gate mux_nodes =
       Inr [\<lparr>type = 0, state = None, connections = []\<rparr>,
            \<lparr>type = 0, state = Some 1, connections = []\<rparr>,
            \<lparr>type = 0, state = Some 0, connections = []\<rparr>,
            \<lparr>type = 1, state = Some 1, connections = []\<rparr>]"
  by (simp add: update_multiplexer_def mux_gate_def mux_nodes_def access_defs set_state_def)

text \<open>
  C3, as the specification states it, fails: with the control input Low and the data
  input Unknown the demultiplexer assigns nothing, so output 1 (node 3) is not forced Low.
\<close>

theorem demultiplexer_unknown_data_not_forced_low:
  "get_state (demux_nodes None (Some 0)) 1 = Inr (Some 0)
   \<and> update_demultiplexer demux_gate (demux_nodes None (Some 0)) =
       Inr (demux_nodes None (Some 0))
   \<and> get_state (demux_nodes None (Some 0)) 3 \<noteq> Inr (Some 0)"
  by (simp add: update_demultiplexer_def demux_gate_def demux_nodes_def access_defs)

text \<open>
  C3, amended. For a demultiplexer whose data input is defined: when the control input
  is Low the data value is copied to output 0 and output 1 is forced Low; when the
  control input is defined and not Low the data value is copied to output 1 and output 0
  is forced Low. When the control input or the data input is Unknown, no node is
  assigned. The two outputs are distinct nodes; \<open>i\<close> and \<open>c\<close> are the states of the
  data and control inputs.
\<close>

theorem demultiplexer_routes_defined_data:
  fixes all_nodes :: "node list" and d k :: nat
  defines "i \<equiv> state (all_nodes ! d)" and "c \<equiv> state (all_nodes ! k)"
  assumes "map_of nodes ''input'' = Some (Index d)"
    and "map_of nodes ''controlSignalInput'' = Some (Index k)"
    and "map_of nodes ''output1'' = Some (Indices (o0 # o1 # rest))"
    and "d < length all_nodes" "k < length all_nodes"
    and "o0 < length all_nodes" "o1 < length all_nodes" "o0 \<noteq> o1"
  shows "(i \<noteq> None \<and> c = Some 0 \<longrightarrow>
           (\<exists>r. update_demultiplexer nodes all_nodes = Inr r
              \<and> state (r ! o0) = i \<and> state (r ! o1) = Some 0))
       \<and> (i \<noteq> None \<and> c \<noteq> None \<and> c \<noteq> Some 0 \<longrightarrow>
           (\<exists>r. update_demultiplexer nodes all_nodes = Inr r
              \<and> state (r ! o1) = i \<and> state (r ! o0) = Some 0))
       \<and> (i = None \<or> c = None \<longrightarrow> update_demultiplexer nodes all_nodes = Inr all_nodes)"
  using assms
  by (auto simp: update_demultiplexer_def access_defs set_state_def)

theorem demultiplexer_routes_defined_data_witness:
  "(\<exists>r. update_demultiplexer demux_gate (demux_nodes (Some 1) (Some 0)) = Inr r
      \<and> state (r ! 2) = Some 1 \<and> state (r ! 3) = Some 0)
   \<and> (\<exists>r. update_demultiplexer demux_gate (demux_nodes (Some 1) (Some 1)) = Inr r
      \<and> state (r ! 3) = Some 1 \<and> state (r ! 2) = Some 0)
   \<and> update_demultiplexer demux_gate (demux_nodes (Some 1) None) =
       Inr (demux_nodes (Some 1) None)"
proof -
  have g: "map_of demux_gate ''input'' = Some (Index 0)"
    "map_of demux_gate ''controlSignalInput'' = Some (Index 1)"
    "map_of demux_gate ''output1'' = Some (Indices (2 # 3 # []))"
    by (simp_all add: demux_gate_def)
  have n: "\<And>i c. length (demux_nodes i c) = 4"
    "\<And>i c. state (demux_nodes i c ! 0) = i" "\<And>i c. state (demux_nodes i c ! Suc 0) = c"
    by (simp_all add: demux_nodes_def)
  from demultiplexer_routes_defined_data [OF g, of "demux_nodes (Some 1) (Some 0)"]
    demultiplexer_routes_defined_data [OF g, of "demux_nodes (Some 1) (Some 1)"]
    demultiplexer_routes_defined_data [OF g, of "demux_nodes (Some 1) None"]
  show ?thesis by (simp add: n)
qed

section \<open>Whole runs on concrete circuits\<close>

lemmas run_defs = resolve_def compute_node_states_def all_successors_def node_successors_def
  sort_all_def reverse_step_def forward_step_def initialize_node_states_def update_element_def
  element_nodes_def set_element_def element_at_def assign_state_def set_state_def
  status_at_def successors_at_def visited_at_def add_def scope_name_def
  INPUT_NODE_def OUTPUT_NODE_def

text \<open>
  C9. A single NOT gate flagged as a loop-breaker (label direction \<open>UP\<close>) whose output
  (node 1) is wired back to its own input (node 0). Initialization seeds the output High;
  the resolution completes without a cycle error, the output ends High and the input ends
  High by flooding. Without the flag the same circuit raises the cycle error.
\<close>

theorem not_gate_loop_breaker_resolves:
  "for_each (initialize_node_states Map.empty) [not_loop_gate ''UP'']
       (not_loop_nodes, replicate (length not_loop_nodes) None) =
     Inr ([\<lparr>type = 0, state = None, connections = [1]\<rparr>,
           \<lparr>type = 1, state = Some 1, connections = [0]\<rparr>],
          [Some (not_loop_gate ''UP''), Some (not_loop_gate ''UP'')])
   \<and> resolve Map.empty (Suc (Suc (Suc fuel))) [not_loop_gate ''UP''] not_loop_nodes =
     Inr [\<lparr>type = 0, state = Some 1, connections = [1]\<rparr>,
          \<lparr>type = 1, state = Some 1, connections = [0]\<rparr>]
   \<and> resolve Map.empty (Suc (Suc (Suc fuel))) [not_loop_gate ''RIGHT''] not_loop_nodes =
     Inl (Exception ''Cyclic graph!'')"
  by (simp add: run_defs not_loop_nodes_def not_loop_gate_def access_defs
      update_not_gate_def upt_rec)

section \<open>The topological orderer\<close>

lemma ebind_simps [simp]: "ebind (Inl e) f = Inl e" "ebind (Inr x) f = f x"
  by (simp_all add: ebind_def)

lemma finite_white [simp]: "finite (white status)"
  by (simp add: white_def)

lemma colours_update:
  assumes "v < length status"
  shows "white (status[v := 1]) = white status - {v}"
    and "black (status[v := 1]) = black status - {v}"
    and "gray (status[v := 1]) = insert v (gray status)"
    and "white (status[v := 2]) = white status - {v}"
    and "gray (status[v := 2]) = gray status - {v}"
    and "black (status[v := 2]) = insert v (black status)"
    and "white (status[v := Suc 0]) = white status - {v}"
    and "black (status[v := Suc 0]) = black status - {v}"
    and "gray (status[v := Suc 0]) = insert v (gray status)"
  using assms by (auto simp: white_def gray_def black_def nth_list_update)

lemma sort_post_loop:
  assumes call: "\<And>v st. sort_inv succs st \<Longrightarrow> v < length succs \<Longrightarrow>
      card (white (snd st)) < fuel \<Longrightarrow> \<forall>g \<in> gray (snd st). (g, v) \<in> (edges succs)\<^sup>+ \<Longrightarrow>
      sort_post succs {v} st (topological_sort fuel v succs st)"
    and "in_range succs" "u < length succs" "set ws \<subseteq> set (succs ! u)"
    and "sort_inv succs st" "card (white (snd st)) < fuel"
    and "\<forall>g \<in> gray (snd st). (g, u) \<in> (edges succs)\<^sup>*"
  shows "sort_post succs (set ws) st
     (for_each (\<lambda>w. topological_sort fuel w succs) ws st)"
  using assms(4-)
proof (induction ws arbitrary: st)
  case Nil
  then show ?case by (simp add: sort_post_def)
next
  case (Cons w ws)
  have uw: "(u, w) \<in> edges succs"
    using Cons.prems(1) \<open>u < length succs\<close> by (simp add: edges_def)
  have w: "w < length succs"
    using Cons.prems(1) \<open>in_range succs\<close> \<open>u < length succs\<close> by (simp add: in_range_def)
  have "\<forall>g \<in> gray (snd st). (g, w) \<in> (edges succs)\<^sup>+"
    using Cons.prems(4) uw by (meson rtrancl_into_trancl1)
  from call [OF Cons.prems(2) w Cons.prems(3) this]
  have first: "sort_post succs {w} st (topological_sort fuel w succs st)" .
  show ?case
  proof (cases "topological_sort fuel w succs st")
    case (Inl e)
    with first show ?thesis by (simp add: sort_post_def)
  next
    case (Inr st')
    with first have st': "sort_inv succs st'" "gray (snd st') = gray (snd st)"
      "black (snd st) \<subseteq> black (snd st')" "white (snd st') \<subseteq> white (snd st)"
      "w \<in> black (snd st')"
      by (simp_all add: sort_post_def)
    have "card (white (snd st')) \<le> card (white (snd st))"
      using st'(4) by (simp add: card_mono)
    then have fuel: "card (white (snd st')) < fuel"
      using Cons.prems(3) by simp
    have "set ws \<subseteq> set (succs ! u)"
      using Cons.prems(1) by simp
    from Cons.IH [OF this st'(1) fuel] Cons.prems(4) st'(2)
    have rest: "sort_post succs (set ws) st'
        (for_each (\<lambda>w. topological_sort fuel w succs) ws st')"
      by simp
    show ?thesis
    proof (cases "for_each (\<lambda>w. topological_sort fuel w succs) ws st'")
      case (Inl e)
      with rest Inr show ?thesis by (simp add: sort_post_def)
    next
      case (Inr st'')
      with rest \<open>topological_sort fuel w succs st = Inr st'\<close> st' show ?thesis
        by (auto simp: sort_post_def)
    qed
  qed
qed

lemma sort_post_call:
  assumes "in_range succs"
  shows "sort_inv succs st \<Longrightarrow> v < length succs \<Longrightarrow> card (white (snd st)) < fuel \<Longrightarrow>
     \<forall>g \<in> gray (snd st). (g, v) \<in> (edges succs)\<^sup>+ \<Longrightarrow>
     sort_post succs {v} st (topological_sort fuel v succs st)"
proof (induction fuel arbitrary: v st)
  case 0
  then show ?case by simp
next
  case (Suc fuel)
  obtain sorted status where st: "st = (sorted, status)"
    by (cases st)
  from Suc.prems(1) have len: "length status = length succs"
    and le2: "\<forall>i < length status. status ! i \<le> 2"
    and dist: "distinct sorted" and set: "set sorted = black status"
    and ord: "\<forall>j < length sorted. \<forall>b \<in> set (succs ! (sorted ! j)). \<exists>i < j. sorted ! i = b"
    by (simp_all add: sort_inv_def st)
  have v: "v < length status"
    using Suc.prems(2) len by simp
  consider (finished) "status ! v = 2" | (on_path) "status ! v = 1" | (fresh) "status ! v = 0"
    using le2 v by (metis le_neq_implies_less less_2_cases_iff numeral_2_eq_2 le_Suc_eq le_zero_eq One_nat_def)
  then show ?case
  proof cases
    case finished
    then show ?thesis
      using Suc.prems(1) v by (simp add: st status_at_def sort_post_def black_def)
  next
    case on_path
    then have "v \<in> gray (snd st)"
      using v by (simp add: gray_def st)
    then have "cyclic succs"
      using Suc.prems(4) by (auto simp: cyclic_def)
    then show ?thesis
      using on_path v by (simp add: st status_at_def sort_post_def)
  next
    case fresh
    let ?st1 = "(sorted, status[v := 1])"
    have vw: "v \<in> white status" "v \<notin> black status" "v \<notin> gray status"
      using fresh v by (simp_all add: white_def black_def gray_def)
    have inv1: "sort_inv succs ?st1"
      using len le2 dist set ord vw v
      by (auto simp: sort_inv_def colours_update nth_list_update)
    have "card (white status - {v}) < card (white status)"
      by (rule card_Diff1_less [OF finite_white vw(1)])
    then have "card (white (status[v := 1])) < card (white status)"
      using v by (simp only: colours_update)
    then have fuel1: "card (white (snd ?st1)) < fuel"
      using Suc.prems(3) by (simp add: st)
    have gray1: "\<forall>g \<in> gray (snd ?st1). (g, v) \<in> (edges succs)\<^sup>*"
      using Suc.prems(4) v by (auto simp: st colours_update)
    have loop: "sort_post succs (set (succs ! v)) ?st1
        (for_each (\<lambda>w. topological_sort fuel w succs) (succs ! v) ?st1)"
      by (rule sort_post_loop [OF Suc.IH assms Suc.prems(2) subset_refl inv1 fuel1 gray1])
    have run: "topological_sort (Suc fuel) v succs st =
        ebind (for_each (\<lambda>w. topological_sort fuel w succs) (succs ! v) ?st1)
          (\<lambda>(sorted', status'). Inr (sorted' @ [v], status'[v := 2]))"
      using fresh v Suc.prems(2) by (simp add: st status_at_def successors_at_def)
    show ?thesis
    proof (cases "for_each (\<lambda>w. topological_sort fuel w succs) (succs ! v) ?st1")
      case (Inl e)
      with loop run show ?thesis by (simp add: sort_post_def)
    next
      case (Inr st')
      obtain sorted' status' where st': "st' = (sorted', status')"
        by (cases st')
      from loop Inr have inv': "sort_inv succs st'"
        and gray': "gray status' = insert v (gray status)"
        and black': "black status \<subseteq> black status'"
        and white': "white status' \<subseteq> white status - {v}"
        and succs': "set (succs ! v) \<subseteq> black status'"
        using v by (simp_all add: sort_post_def st' colours_update vw)
      from inv' have len': "length status' = length succs"
        and le2': "\<forall>i < length status'. status' ! i \<le> 2"
        and dist': "distinct sorted'" and set': "set sorted' = black status'"
        and ord': "\<forall>j < length sorted'. \<forall>b \<in> set (succs ! (sorted' ! j)). \<exists>i < j. sorted' ! i = b"
        by (simp_all add: sort_inv_def st')
      have v': "v < length status'"
        using Suc.prems(2) len' by simp
      have vg: "v \<in> gray status'"
        using gray' by simp
      then have vb: "v \<notin> black status'"
        by (simp add: gray_def black_def)
      have ord2: "\<forall>j < length (sorted' @ [v]).
          \<forall>b \<in> set (succs ! ((sorted' @ [v]) ! j)). \<exists>i < j. (sorted' @ [v]) ! i = b"
      proof (intro allI impI ballI)
        fix j b
        assume j: "j < length (sorted' @ [v])" and b: "b \<in> set (succs ! ((sorted' @ [v]) ! j))"
        show "\<exists>i < j. (sorted' @ [v]) ! i = b"
        proof (cases "j < length sorted'")
          case True
          with ord' b obtain i where "i < j" "sorted' ! i = b"
            by (auto simp: nth_append)
          with True show ?thesis
            by (auto simp: nth_append intro!: exI [of _ i])
        next
          case False
          with j have j': "j = length sorted'" by simp
          with b succs' set' have "b \<in> set sorted'" by (auto simp: nth_append)
          then obtain i where "i < length sorted'" "sorted' ! i = b"
            by (auto simp: in_set_conv_nth)
          with j' show ?thesis
            by (auto simp: nth_append intro!: exI [of _ i])
        qed
      qed
      have inv2: "sort_inv succs (sorted' @ [v], status'[v := 2])"
        using len' le2' dist' set' vb v' ord2
        by (auto simp: sort_inv_def colours_update nth_list_update)
      have "gray (status'[v := 2]) = gray status"
        using gray' vw(3) v' by (auto simp: colours_update)
      moreover have "black status \<subseteq> black (status'[v := 2])"
        using black' v' by (auto simp: colours_update)
      moreover have "white (status'[v := 2]) \<subseteq> white status"
        using white' v' by (auto simp: colours_update)
      moreover have "v \<in> black (status'[v := 2])"
        using v' by (simp add: colours_update)
      ultimately show ?thesis
        using inv2 run Inr by (simp add: sort_post_def st st')
    qed
  qed
qed

lemma card_white_le: "card (white status) \<le> length status"
proof -
  have "white status \<subseteq> {..<length status}"
    by (auto simp: white_def)
  then have "card (white status) \<le> card {..<length status}"
    by (rule card_mono [rotated]) simp
  then show ?thesis by simp
qed

lemma sort_post_all:
  assumes "in_range succs" "length succs < fuel"
  shows "sort_inv succs st \<Longrightarrow> gray (snd st) = {} \<Longrightarrow> set ks \<subseteq> {..<length succs} \<Longrightarrow>
     sort_post succs (set ks) st
       (for_each (\<lambda>index (sorted_nodes, node_status).
           ebind (status_at node_status index) (\<lambda>s.
           if s = 0
           then topological_sort fuel index succs (sorted_nodes, node_status)
           else Inr (sorted_nodes, node_status))) ks st)"
proof (induction ks arbitrary: st)
  case Nil
  then show ?case by (simp add: sort_post_def)
next
  case (Cons k ks)
  let ?body = "\<lambda>index (sorted_nodes, node_status).
           ebind (status_at node_status index) (\<lambda>s.
           if s = 0
           then topological_sort fuel index succs (sorted_nodes, node_status)
           else Inr (sorted_nodes, node_status))"
  obtain sorted status where st: "st = (sorted, status)"
    by (cases st)
  from Cons.prems(1) have len: "length status = length succs"
    and le2: "\<forall>i < length status. status ! i \<le> 2"
    by (simp_all add: sort_inv_def st)
  have k: "k < length succs" "k < length status"
    using Cons.prems(3) len by simp_all
  have first: "sort_post succs {k} st (?body k st)"
  proof (cases "status ! k = 0")
    case True
    have "card (white (snd st)) < fuel"
      using card_white_le [of status] len assms(2) by (simp add: st)
    from sort_post_call [OF assms(1) Cons.prems(1) k(1) this] Cons.prems(2) True k
    show ?thesis by (simp add: st status_at_def)
  next
    case False
    moreover have "status ! k \<noteq> 1"
      using Cons.prems(2) k by (auto simp: gray_def st)
    moreover have "status ! k \<le> 2"
      using le2 k(2) by simp
    ultimately have "status ! k = 2"
      by arith
    then have "k \<in> black status"
      using k by (simp add: black_def)
    with False k Cons.prems(1) show ?thesis
      by (simp add: st status_at_def sort_post_def)
  qed
  show ?case
  proof (cases "?body k st")
    case (Inl e)
    with first show ?thesis by (simp add: sort_post_def)
  next
    case (Inr st')
    with first have st': "sort_inv succs st'" "gray (snd st') = gray (snd st)"
      "black (snd st) \<subseteq> black (snd st')" "white (snd st') \<subseteq> white (snd st)"
      "k \<in> black (snd st')"
      by (simp_all add: sort_post_def)
    have "set ks \<subseteq> {..<length succs}"
      using Cons.prems(3) by simp
    from Cons.IH [OF st'(1) _ this] st'(2) Cons.prems(2)
    have rest: "sort_post succs (set ks) st' (for_each ?body ks st')"
      by simp
    show ?thesis
    proof (cases "for_each ?body ks st'")
      case (Inl e)
      with rest Inr show ?thesis by (simp add: sort_post_def)
    next
      case (Inr st'')
      with rest \<open>?body k st = Inr st'\<close> st' show ?thesis
        by (auto simp: sort_post_def)
    qed
  qed
qed

lemma sort_inv_initial: "sort_inv succs ([], replicate (length succs) 0)"
  by (simp add: sort_inv_def black_def)

lemma ordered_path:
  assumes ord: "\<forall>j < length xs. \<forall>b \<in> set (succs ! (xs ! j)). \<exists>i < j. xs ! i = b"
    and "(a, b) \<in> (edges succs)\<^sup>+"
  shows "\<forall>j < length xs. xs ! j = a \<longrightarrow> (\<exists>i < j. xs ! i = b)"
  using assms(2)
proof (induction rule: trancl_induct)
  case (base b)
  then show ?case using ord by (auto simp: edges_def)
next
  case (step b c)
  show ?case
  proof (intro allI impI)
    fix j assume j: "j < length xs" "xs ! j = a"
    with step.IH obtain i where i: "i < j" "xs ! i = b" by blast
    with j ord step.hyps(2) obtain k where "k < i" "xs ! k = c"
      by (auto simp: edges_def) (metis less_trans)
    with i show "\<exists>i < j. xs ! i = c"
      by (metis less_trans)
  qed
qed

lemma ordered_acyclic:
  assumes "distinct xs" "set xs = {0..<length succs}"
    and ord: "\<forall>j < length xs. \<forall>b \<in> set (succs ! (xs ! j)). \<exists>i < j. xs ! i = b"
  shows "\<not> cyclic succs"
proof
  assume "cyclic succs"
  then obtain v where v: "(v, v) \<in> (edges succs)\<^sup>+"
    by (auto simp: cyclic_def)
  have "v < length succs"
    using tranclD [OF v] by (auto simp: edges_def)
  then have "v \<in> set xs"
    using assms(2) by simp
  then obtain j where j: "j < length xs" "xs ! j = v"
    by (auto simp: in_set_conv_nth)
  with ordered_path [OF ord v] obtain i where "i < j" "xs ! i = v"
    by blast
  with j assms(1) show False
    by (metis less_trans nat_neq_iff nth_eq_iff_index_eq)
qed

lemma ordered_first_pass:
  assumes "distinct xs"
    and ord: "\<forall>j < length xs. \<forall>b \<in> set (succs ! (xs ! j)). \<exists>i < j. xs ! i = b"
    and "i < length xs" "j < length xs"
    and "rev xs ! j \<in> set (succs ! (rev xs ! i))"
  shows "i < j"
proof -
  let ?n = "length xs"
  have "xs ! (?n - Suc j) \<in> set (succs ! (xs ! (?n - Suc i)))"
    using assms(3-5) by (simp add: rev_nth)
  moreover have "?n - Suc i < ?n"
    using assms(3) by simp
  ultimately obtain k where k: "k < ?n - Suc i" "xs ! k = xs ! (?n - Suc j)"
    using ord by blast
  then have "k = ?n - Suc j"
    using assms(1,3,4) by (simp add: nth_eq_iff_index_eq)
  with k(1) assms(3,4) show ?thesis by simp
qed

text \<open>
  C5. On a successors relation whose entries are node indices, and with a recursion bound
  above the number of nodes: if the relation contains a cycle, the topological sort of all
  nodes fails with the exception ``Cyclic graph!''; if it contains none, the sort completes
  without error, every node (also one without any edge) has exactly one position in the
  order, and in the order of the first propagation pass (the reverse of \<open>sorted_nodes\<close>)
  every node stands before each of its successors.
\<close>

theorem topological_sort_cycle_or_order:
  assumes "in_range succs" "length succs < fuel"
  shows "(cyclic succs \<longrightarrow>
            sort_all fuel (length succs) succs = Inl (Exception ''Cyclic graph!''))
       \<and> (\<not> cyclic succs \<longrightarrow>
            (\<exists>sorted_nodes node_status.
               sort_all fuel (length succs) succs = Inr (sorted_nodes, node_status)
               \<and> distinct sorted_nodes \<and> set sorted_nodes = {0..<length succs}
               \<and> (\<forall>i j. i < length sorted_nodes \<and> j < length sorted_nodes
                    \<and> rev sorted_nodes ! j \<in> set (succs ! (rev sorted_nodes ! i))
                    \<longrightarrow> i < j)))"
proof -
  let ?r = "sort_all fuel (length succs) succs"
  have post: "sort_post succs {0..<length succs} ([], replicate (length succs) 0) ?r"
    using sort_post_all [OF assms sort_inv_initial, of "[0..<length succs]"]
    by (simp add: sort_all_def gray_def atLeast0LessThan)
  show ?thesis
  proof (cases ?r)
    case (Inl e)
    with post show ?thesis by (simp add: sort_post_def)
  next
    case (Inr st)
    obtain sorted status where st: "st = (sorted, status)"
      by (cases st)
    from post Inr have inv: "sort_inv succs st" and all: "{0..<length succs} \<subseteq> black status"
      by (simp_all add: sort_post_def st)
    from inv have len: "length status = length succs"
      and dist: "distinct sorted" and set: "set sorted = black status"
      and ord: "\<forall>j < length sorted. \<forall>b \<in> set (succs ! (sorted ! j)). \<exists>i < j. sorted ! i = b"
      by (simp_all add: sort_inv_def st)
    have "black status \<subseteq> {0..<length succs}"
      using len by (auto simp: black_def)
    with all set have set': "set sorted = {0..<length succs}"
      by auto
    have acyclic: "\<not> cyclic succs"
      by (rule ordered_acyclic [OF dist set' ord])
    have "\<forall>i j. i < length sorted \<and> j < length sorted
          \<and> rev sorted ! j \<in> set (succs ! (rev sorted ! i)) \<longrightarrow> i < j"
      using ordered_first_pass [OF dist ord] by blast
    with acyclic dist set' Inr st show ?thesis
      by simp
  qed
qed

text \<open>
  A cycle of two nodes raises the exception; the graph with the one edge from node 0 to
  node 1 and the isolated node 2 is sorted.
\<close>

lemma one_edge_path:
  assumes "(a, b) \<in> (edges [[1], [], []])\<^sup>+"
  shows "a = 0 \<and> b = 1"
  using assms
proof (induction rule: trancl_induct)
  case (base b)
  then show ?case
    by (auto simp: edges_def nth_Cons split: nat.splits)
next
  case (step b c)
  then show ?case
    by (auto simp: edges_def nth_Cons split: nat.splits)
qed

theorem topological_sort_cycle_or_order_witness:
  "sort_all 3 (length [[1], [0::nat]]) [[1], [0]] = Inl (Exception ''Cyclic graph!'')
   \<and> (\<exists>sorted_nodes node_status.
        sort_all 4 (length [[1], [], []::nat list]) [[1], [], []] = Inr (sorted_nodes, node_status)
        \<and> distinct sorted_nodes \<and> set sorted_nodes = {0..<length [[1], [], []::nat list]}
        \<and> (\<forall>i j. i < length sorted_nodes \<and> j < length sorted_nodes
              \<and> rev sorted_nodes ! j \<in> set ([[1], [], []] ! (rev sorted_nodes ! i))
              \<longrightarrow> i < j))"
proof -
  have r: "in_range [[1], [0]]" "in_range [[1], [], []]"
    by (auto simp: in_range_def nth_Cons split: nat.splits)
  have "(0, 1) \<in> edges [[1], [0]]" "(1, 0) \<in> edges [[1], [0]]"
    by (simp_all add: edges_def)
  then have "(0, 0) \<in> (edges [[1], [0]])\<^sup>+"
    by (meson trancl.r_into_trancl trancl_trans)
  then have c: "cyclic [[1], [0]]"
    by (auto simp: cyclic_def)
  have a: "\<not> cyclic [[1], [], []]"
    using one_edge_path by (fastforce simp: cyclic_def)
  from topological_sort_cycle_or_order [OF r(1), of 3]
    topological_sort_cycle_or_order [OF r(2), of 4] c a
  show ?thesis by simp
qed

section \<open>Where the arity of a gate is checked\<close>

text \<open>
  C6, as the specification states it, fails. A Power element (output node 0) and an AND
  gate with three inputs (nodes 1, 2, 3; output node 4): the initialization of both
  elements succeeds and seeds node 0 High, and only the computation of the node states
  that follows raises the exception. A NOR gate with three inputs that is flagged as a
  loop-breaker (nodes 0, 1, 2; output node 3) is never evaluated, and the resolution
  completes without any error.
\<close>

theorem arity_error_after_initialization:
  "for_each (initialize_node_states Map.empty) [power_element, and3_element]
       (and3_nodes None, replicate (length (and3_nodes None)) None) =
     Inr (and3_nodes (Some 1),
          [Some power_element, Some and3_element, Some and3_element, Some and3_element,
           Some and3_element])
   \<and> compute_node_states Map.empty (Suc (Suc 0)) (and3_nodes (Some 1))
       [Some power_element, Some and3_element, Some and3_element, Some and3_element,
        Some and3_element] =
     Inl (Exception ''Unsupported and gate (>2 inputs)'')
   \<and> resolve Map.empty (Suc (Suc 0)) [nor3_element] (nor3_nodes None) =
     Inr (nor3_nodes (Some 1))"
  by (simp add: run_defs access_defs power_element_def and3_element_def and3_nodes_def
      nor3_element_def nor3_nodes_def update_and_gate_def upt_rec)

lemma for_each_error:
  assumes "for_each f xs s = Inl e"
  shows "\<exists>x s'. f x s' = Inl e"
  using assms by (induction xs arbitrary: s) (auto split: sum.splits)

lemma assign_state_error: "assign_state all_nodes k v = Inl e \<Longrightarrow> e = IndexError"
  by (simp add: assign_state_def split: if_splits)

lemma set_element_error: "set_element ebni k x = Inl e \<Longrightarrow> e = IndexError"
  by (simp add: set_element_def split: if_splits)

lemma port_error: "port nodes k = Inl e \<Longrightarrow> e = KeyError \<or> e = TypeError"
  by (auto simp: port_def lookup_def ebind_def split: option.splits ports.splits)

lemma ebind_no_exception:
  assumes "r \<noteq> Inl (Exception m)" "\<And>x. f x \<noteq> Inl (Exception m)"
  shows "ebind r f \<noteq> Inl (Exception m)"
  using assms by (cases r) simp_all

lemma if_no_exception:
  assumes "c \<Longrightarrow> a \<noteq> Inl (Exception m)" "\<not> c \<Longrightarrow> b \<noteq> Inl (Exception m)"
  shows "(if c then a else b) \<noteq> Inl (Exception m)"
  using assms by simp

lemma pair_no_exception:
  assumes "\<And>a b. f a b \<noteq> Inl (Exception m)"
  shows "(case p of (a, b) \<Rightarrow> f a b) \<noteq> Inl (Exception m)"
  using assms by (cases p) simp

lemma for_each_no_exception:
  assumes "\<And>x s. f x s \<noteq> Inl (Exception m)"
  shows "for_each f xs s \<noteq> Inl (Exception m)"
  using for_each_error [of f xs s "Exception m"] assms by blast

lemma access_no_exception:
  "assign_state all_nodes k v \<noteq> Inl (Exception m)"
  "set_element ebni k x \<noteq> Inl (Exception m)"
  "port nodes key \<noteq> Inl (Exception m)"
  "scope_name scope_name_by_id e \<noteq> Inl (Exception m)"
  "Inr y \<noteq> Inl (Exception m)"
  using assign_state_error [of all_nodes k v] set_element_error [of ebni k x]
    port_error [of nodes key]
  by (auto simp: scope_name_def split: option.splits)

lemma initialize_node_states_no_exception:
  "initialize_node_states scope_name_by_id e st \<noteq> Inl (Exception m)"
proof (cases st)
  case (Pair all_nodes ebni0)
  show ?thesis
  proof (cases "objectType e")
    case None
    show ?thesis
      unfolding initialize_node_states_def Pair prod.case None option.case
      by (intro ebind_no_exception if_no_exception pair_no_exception for_each_no_exception
          access_no_exception)
  next
    case (Some ty)
    show ?thesis
      unfolding initialize_node_states_def Pair prod.case Some option.case Let_def
      by (intro ebind_no_exception if_no_exception pair_no_exception for_each_no_exception
          access_no_exception)
  qed
qed

lemma unsupported_gates:
  assumes "map_of nodes ''inp'' = Some (Indices inp)" "2 < length inp"
    and "inp ! 0 < length all_nodes" "inp ! 1 < length all_nodes"
  shows "update_and_gate nodes all_nodes = Inl (Exception ''Unsupported and gate (>2 inputs)'')"
    and "update_nand_gate nodes all_nodes = Inl (Exception ''Unsupported nand gate (>2 inputs)'')"
    and "update_nor_gate nodes all_nodes = Inl (Exception ''Unsupported nor gate (>2 inputs)'')"
    and "update_xor_gate nodes all_nodes = Inl (Exception ''Unsupported xor gate (>2 inputs)'')"
    and "3 < length inp \<Longrightarrow>
         update_or_gate nodes all_nodes = Inl (Exception ''Unsupported or gate (>3 inputs)'')"
proof -
  have len: "0 < length inp" "Suc 0 < length inp" "length inp \<noteq> 2"
    using assms(2) by auto
  show "update_and_gate nodes all_nodes = Inl (Exception ''Unsupported and gate (>2 inputs)'')"
    using assms len by (simp add: update_and_gate_def access_defs)
  show "update_nand_gate nodes all_nodes = Inl (Exception ''Unsupported nand gate (>2 inputs)'')"
    using assms len by (simp add: update_nand_gate_def access_defs)
  show "update_nor_gate nodes all_nodes = Inl (Exception ''Unsupported nor gate (>2 inputs)'')"
    using assms len by (simp add: update_nor_gate_def access_defs)
  show "update_xor_gate nodes all_nodes = Inl (Exception ''Unsupported xor gate (>2 inputs)'')"
    using assms len by (simp add: update_xor_gate_def access_defs)
  show "update_or_gate nodes all_nodes = Inl (Exception ''Unsupported or gate (>3 inputs)'')"
    if "3 < length inp"
    using assms len that by (simp add: update_or_gate_def access_defs)
qed

lemma reverse_step_evaluates:
  assumes "index < length all_nodes" "type (all_nodes ! index) = OUTPUT_NODE"
    and "state (all_nodes ! index) = None"
    and "index < length ebni" "ebni ! index = Some e"
    and "update_element scope_name_by_id e all_nodes = Inl err"
  shows "reverse_step scope_name_by_id sbni ebni index all_nodes = Inl err"
  using assms by (simp add: reverse_step_def node_at_def element_at_def)

text \<open>
  C6, amended. A gate whose \<open>inp\<close> list has more than two entries (more than three for
  an OR gate), the first two of them node indices, is not rejected by the initialization:
  \<^verbatim>\<open>initialize_node_states\<close> never raises an ``Unsupported'' exception. The exception is
  raised by the evaluator of the gate, that is, when the reverse pass reaches an output
  node of the gate that is still Unknown; the evaluator assigns no node then.
\<close>

theorem unsupported_arity_raised_by_evaluator:
  assumes "map_of (customData_nodes e) ''inp'' = Some (Indices inp)" "2 < length inp"
    and "inp ! 0 < length all_nodes" "inp ! 1 < length all_nodes"
    and "index < length all_nodes" "type (all_nodes ! index) = OUTPUT_NODE"
    and "state (all_nodes ! index) = None"
    and "index < length ebni" "ebni ! index = Some e"
  shows "initialize_node_states scope_name_by_id e st \<noteq> Inl (Exception m)
       \<and> update_and_gate (customData_nodes e) all_nodes =
           Inl (Exception ''Unsupported and gate (>2 inputs)'')
       \<and> update_nand_gate (customData_nodes e) all_nodes =
           Inl (Exception ''Unsupported nand gate (>2 inputs)'')
       \<and> update_nor_gate (customData_nodes e) all_nodes =
           Inl (Exception ''Unsupported nor gate (>2 inputs)'')
       \<and> update_xor_gate (customData_nodes e) all_nodes =
           Inl (Exception ''Unsupported xor gate (>2 inputs)'')
       \<and> (3 < length inp \<longrightarrow> update_or_gate (customData_nodes e) all_nodes =
           Inl (Exception ''Unsupported or gate (>3 inputs)''))
       \<and> (objectType e = Some ''AndGate'' \<longrightarrow>
           reverse_step scope_name_by_id sbni ebni index all_nodes =
             Inl (Exception ''Unsupported and gate (>2 inputs)''))
       \<and> (objectType e = Some ''NandGate'' \<longrightarrow>
           reverse_step scope_name_by_id sbni ebni index all_nodes =
             Inl (Exception ''Unsupported nand gate (>2 inputs)''))
       \<and> (objectType e = Some ''NorGate'' \<longrightarrow>
           reverse_step scope_name_by_id sbni ebni index all_nodes =
             Inl (Exception ''Unsupported nor gate (>2 inputs)''))
       \<and> (objectType e = Some ''XorGate'' \<longrightarrow>
           reverse_step scope_name_by_id sbni ebni index all_nodes =
             Inl (Exception ''Unsupported xor gate (>2 inputs)''))
       \<and> (objectType e = Some ''OrGate'' \<and> 3 < length inp \<longrightarrow>
           reverse_step scope_name_by_id sbni ebni index all_nodes =
             Inl (Exception ''Unsupported or gate (>3 inputs)''))"
proof -
  note gates = unsupported_gates [OF assms(1-4)]
  note step = reverse_step_evaluates [OF assms(5-9), of scope_name_by_id _ sbni]
  show ?thesis
    using initialize_node_states_no_exception [of scope_name_by_id e st m] gates
    by (auto intro!: step simp: update_element_def)
qed

theorem unsupported_arity_raised_by_evaluator_witness:
  "initialize_node_states Map.empty (or4_element ''AndGate'') (and3_nodes None, replicate 5 None)
     \<noteq> Inl (Exception ''Unsupported and gate (>2 inputs)'')
   \<and> update_and_gate (customData_nodes (or4_element ''AndGate'')) (and3_nodes None) =
       Inl (Exception ''Unsupported and gate (>2 inputs)'')
   \<and> update_or_gate (customData_nodes (or4_element ''OrGate'')) (and3_nodes None) =
       Inl (Exception ''Unsupported or gate (>3 inputs)'')
   \<and> reverse_step Map.empty [] (replicate 5 (Some (or4_element ''AndGate''))) 4 (and3_nodes None) =
       Inl (Exception ''Unsupported and gate (>2 inputs)'')
   \<and> reverse_step Map.empty [] (replicate 5 (Some (or4_element ''NandGate''))) 4 (and3_nodes None) =
       Inl (Exception ''Unsupported nand gate (>2 inputs)'')
   \<and> reverse_step Map.empty [] (replicate 5 (Some (or4_element ''NorGate''))) 4 (and3_nodes None) =
       Inl (Exception ''Unsupported nor gate (>2 inputs)'')
   \<and> reverse_step Map.empty [] (replicate 5 (Some (or4_element ''XorGate''))) 4 (and3_nodes None) =
       Inl (Exception ''Unsupported xor gate (>2 inputs)'')
   \<and> reverse_step Map.empty [] (replicate 5 (Some (or4_element ''OrGate''))) 4 (and3_nodes None) =
       Inl (Exception ''Unsupported or gate (>3 inputs)'')"
proof -
  have g: "\<And>ty. map_of (customData_nodes (or4_element ty)) ''inp'' = Some (Indices [1, 2, 3, 0])"
    "2 < length [1, 2, 3, 0::nat]" "[1, 2, 3, 0::nat] ! 0 < length (and3_nodes None)"
    "[1, 2, 3, 0::nat] ! 1 < length (and3_nodes None)"
    by (simp_all add: or4_element_def and3_nodes_def)
  have n: "4 < length (and3_nodes None)" "type (and3_nodes None ! 4) = OUTPUT_NODE"
    "state (and3_nodes None ! 4) = None"
    by (simp_all add: and3_nodes_def OUTPUT_NODE_def)
  have e: "\<And>ty. 4 < length (replicate 5 (Some (or4_element ty)))"
    "\<And>ty. replicate 5 (Some (or4_element ty)) ! 4 = Some (or4_element ty)"
    by simp_all
  have ty: "\<And>ty. objectType (or4_element ty) = Some ty"
    by (simp add: or4_element_def)
  from unsupported_arity_raised_by_evaluator
      [OF g(1) [of "''AndGate''"] g(2-4) n e(1) [of "''AndGate''"] e(2) [of "''AndGate''"],
        where scope_name_by_id = Map.empty and sbni = "[]"
          and st = "(and3_nodes None, replicate 5 None)"
          and m = "''Unsupported and gate (>2 inputs)''"]
    unsupported_arity_raised_by_evaluator
      [OF g(1) [of "''NandGate''"] g(2-4) n e(1) [of "''NandGate''"] e(2) [of "''NandGate''"],
        where scope_name_by_id = Map.empty and sbni = "[]"
          and st = "(and3_nodes None, replicate 5 None)"
          and m = "''Unsupported and gate (>2 inputs)''"]
    unsupported_arity_raised_by_evaluator
      [OF g(1) [of "''NorGate''"] g(2-4) n e(1) [of "''NorGate''"] e(2) [of "''NorGate''"],
        where scope_name_by_id = Map.empty and sbni = "[]"
          and st = "(and3_nodes None, replicate 5 None)"
          and m = "''Unsupported and gate (>2 inputs)''"]
    unsupported_arity_raised_by_evaluator
      [OF g(1) [of "''XorGate''"] g(2-4) n e(1) [of "''XorGate''"] e(2) [of "''XorGate''"],
        where scope_name_by_id = Map.empty and sbni = "[]"
          and st = "(and3_nodes None, replicate 5 None)"
          and m = "''Unsupported and gate (>2 inputs)''"]
    unsupported_arity_raised_by_evaluator
      [OF g(1) [of "''OrGate''"] g(2-4) n e(1) [of "''OrGate''"] e(2) [of "''OrGate''"],
        where scope_name_by_id = Map.empty and sbni = "[]"
          and st = "(and3_nodes None, replicate 5 None)"
          and m = "''Unsupported and gate (>2 inputs)''"]
  show ?thesis
    by (simp add: ty)
qed

section \<open>Assignments during a run\<close>





section \<open>Nets and flooding\<close>

lemma finite_unseen [simp]: "finite (unseen visited)"
  by (simp add: unseen_def)



lemma set_add [simp]: "set (add successors x) = insert x (set successors)"
  by (auto simp: add_def)
















end
